theory Spec2Isabelle
  imports Complex_Main "HOL-Library.Sublist"
begin

section \<open>Token bucket rate limiter\<close>

text \<open>
  Class \<open>TokenBucket\<close> of \<open>src/infrastructure/ApiClient.ts\<close>. JavaScript numbers are
  read as real numbers, so the model is the one of buckets whose arithmetic neither
  overflows nor divides by zero; millisecond timestamps (\<open>Date.now()\<close>) are integers.
  Every call of \<open>Date.now()\<close> is a parameter of the operation that makes it.
\<close>

record TokenBucket =
  capacity :: real
  refillInterval :: real
  tokens :: real
  lastRefill :: int


definition refill :: "int \<Rightarrow> TokenBucket \<Rightarrow> TokenBucket" where
  "refill now b =
     (let elapsed = now - lastRefill b in
      if elapsed > 0 then
        (let tokensToAdd = (of_int elapsed / refillInterval b) * capacity b in
         b\<lparr>tokens := min (capacity b) (tokens b + tokensToAdd), lastRefill := now\<rparr>)
      else b)"









section \<open>Title normalizer\<close>

text \<open>
  Class \<open>TitleNormalizer\<close> of \<open>src/utils/TitleNormalizer.ts\<close>. A JavaScript string is a
  sequence of UTF-16 code units; the model has the strings whose code units are below 256,
  one \<^typ>\<open>char\<close> each. The character classes are those of the regular expressions of the
  source on that range: \<open>\s\<close> is the white space of ECMAScript (tab to carriage return,
  space, no-break space), \<open>\b\<close> separates a word character \<open>[A-Za-z0-9_]\<close> from another
  character or an end of the string, and the flag \<open>i\<close> compares the upper-case forms, which
  for the ASCII letters of the patterns identifies exactly each letter with its other case.
\<close>

definition code_unit :: "char \<Rightarrow> int" where
  "code_unit c = of_char c"

definition is_upper :: "char \<Rightarrow> bool" where
  "is_upper c \<longleftrightarrow> 65 \<le> code_unit c \<and> code_unit c \<le> 90"

definition is_lower :: "char \<Rightarrow> bool" where
  "is_lower c \<longleftrightarrow> 97 \<le> code_unit c \<and> code_unit c \<le> 122"

definition is_digit :: "char \<Rightarrow> bool" where
  "is_digit c \<longleftrightarrow> 48 \<le> code_unit c \<and> code_unit c \<le> 57"

definition is_word_char :: "char \<Rightarrow> bool" where
  "is_word_char c \<longleftrightarrow> is_upper c \<or> is_lower c \<or> is_digit c \<or> c = CHR ''_''"

definition is_space :: "char \<Rightarrow> bool" where
  "is_space c \<longleftrightarrow> (9 \<le> code_unit c \<and> code_unit c \<le> 13) \<or> code_unit c = 32 \<or> code_unit c = 160"

text \<open>The canonical form that the flag \<open>i\<close> compares: the upper-case form of an ASCII letter.\<close>

definition canonicalize :: "char \<Rightarrow> char" where
  "canonicalize c = (if is_lower c then char_of (code_unit c - 32) else c)"

text \<open>\<open>String.prototype.toLowerCase\<close> on one code unit below 256.\<close>

definition toLowerCase_char :: "char \<Rightarrow> char" where
  "toLowerCase_char c =
     (if is_upper c \<or> (192 \<le> code_unit c \<and> code_unit c \<le> 222 \<and> code_unit c \<noteq> 215)
      then char_of (code_unit c + 32) else c)"

text \<open>
  A literal pattern read at the head of a string, case-insensitively: the rest of the
  string after the match, if it matches.
\<close>

fun match_literal :: "string \<Rightarrow> string \<Rightarrow> string option" where
  "match_literal [] s = Some s"
| "match_literal (p # ps) [] = None"
| "match_literal (p # ps) (c # cs) =
     (if canonicalize p = canonicalize c then match_literal ps cs else None)"

text \<open>
  A regular expression of the source, as the function that tries it at one position: it
  gets the character before the position (none at the start) and the string from the
  position on, and gives the length of the match. None of the patterns matches the empty
  string, and none has two ways to match at one position.
\<close>

type_synonym pattern = "char option \<Rightarrow> string \<Rightarrow> nat option"

text \<open>A literal, such as \<open>/\(Repack\)/gi\<close>.\<close>

definition lit :: "string \<Rightarrow> pattern" where
  "lit pat prev s = (case match_literal pat s of None \<Rightarrow> None | Some rest \<Rightarrow> Some (length pat))"

text \<open>
  A literal, then the longest run of characters other than the closing one, then the closing
  character: \<open>/\(FitGirl Repack[^)]*\)/gi\<close>.
\<close>

definition delimited :: "string \<Rightarrow> char \<Rightarrow> pattern" where
  "delimited pat close prev s =
     (case match_literal pat s of
        None \<Rightarrow> None
      | Some rest \<Rightarrow>
          (let body = takeWhile (\<lambda>c. c \<noteq> close) rest in
           if length body < length rest then Some (length pat + length body + 1) else None))"

definition is_word_opt :: "char option \<Rightarrow> bool" where
  "is_word_opt x = (case x of None \<Rightarrow> False | Some c \<Rightarrow> is_word_char c)"

definition word_boundary :: "char option \<Rightarrow> char option \<Rightarrow> bool" where
  "word_boundary a b \<longleftrightarrow> is_word_opt a \<noteq> is_word_opt b"

definition first_char :: "string \<Rightarrow> char option" where
  "first_char s = (case s of [] \<Rightarrow> None | c # _ \<Rightarrow> Some c)"

definition last_char :: "char option \<Rightarrow> string \<Rightarrow> char option" where
  "last_char prev s = (case rev s of [] \<Rightarrow> prev | c # _ \<Rightarrow> Some c)"

text \<open>A literal between two word boundaries: \<open>/\bGOTY\b/gi\<close>.\<close>

definition whole_word :: "string \<Rightarrow> pattern" where
  "whole_word pat prev s =
     (if word_boundary prev (first_char s) then
        (case match_literal pat s of
           None \<Rightarrow> None
         | Some rest \<Rightarrow>
             if word_boundary (last_char prev (take (length pat) s)) (first_char rest)
             then Some (length pat) else None)
      else None)"

text \<open>
  \<open>String.prototype.replace\<close> with a global pattern: the matches are taken from left to
  right and do not overlap. \<open>skip\<close> counts the characters of the current match that are
  still to be passed over.
\<close>

fun replace_from :: "pattern \<Rightarrow> string \<Rightarrow> nat \<Rightarrow> char option \<Rightarrow> string \<Rightarrow> string" where
  "replace_from m rep skip prev [] = []"
| "replace_from m rep (Suc k) prev (c # cs) = replace_from m rep k (Some c) cs"
| "replace_from m rep 0 prev (c # cs) =
     (case m prev (c # cs) of
        None \<Rightarrow> c # replace_from m rep 0 (Some c) cs
      | Some n \<Rightarrow> rep @ replace_from m rep (n - 1) (Some c) cs)"

definition replace_all :: "pattern \<Rightarrow> string \<Rightarrow> string \<Rightarrow> string" where
  "replace_all m rep s = replace_from m rep 0 None s"

definition REPACK_PATTERNS :: "pattern list" where
  "REPACK_PATTERNS =
     [delimited ''(FitGirl Repack'' CHR '')'',
      delimited ''[FitGirl Repack'' CHR '']'',
      lit ''(Repack)'',
      lit ''[Repack]'',
      lit ''- Repack'']"

definition EDITION_PATTERNS :: "pattern list" where
  "EDITION_PATTERNS =
     [whole_word ''Complete Edition'',
      whole_word ''GOTY'',
      whole_word ''Game of the Year'',
      whole_word ''Definitive Edition'',
      whole_word ''Ultimate Edition'',
      whole_word ''Deluxe Edition'',
      whole_word ''Premium Edition'',
      whole_word ''Enhanced Edition'',
      whole_word ''Remastered'',
      whole_word ''Remake'']"

definition removeRepackMarkers :: "string \<Rightarrow> string" where
  "removeRepackMarkers title = foldl (\<lambda>result pattern. replace_all pattern [] result) title REPACK_PATTERNS"

definition removeEditionSuffixes :: "string \<Rightarrow> string" where
  "removeEditionSuffixes title = foldl (\<lambda>result pattern. replace_all pattern [] result) title EDITION_PATTERNS"

definition removeSpecialCharacters :: "string \<Rightarrow> string" where
  "removeSpecialCharacters title =
     map (\<lambda>c. if is_upper c \<or> is_lower c \<or> is_digit c \<or> is_space c \<or> c = CHR ''-'' \<or> c = CHR 0x27
              then c else CHR '' '') title"

text \<open>\<open>replace(/\s+/g, ' ')\<close>: every maximal run of white space becomes one space.\<close>

fun collapse_spaces :: "bool \<Rightarrow> string \<Rightarrow> string" where
  "collapse_spaces in_run [] = []"
| "collapse_spaces in_run (c # cs) =
     (if is_space c then (if in_run then collapse_spaces True cs else CHR '' '' # collapse_spaces True cs)
      else c # collapse_spaces False cs)"

text \<open>\<open>replace(/[-\s]+$/g, '')\<close> and \<open>trim\<close> drop a run of characters at an end of the string.\<close>

definition strip_end :: "(char \<Rightarrow> bool) \<Rightarrow> string \<Rightarrow> string" where
  "strip_end p s = rev (dropWhile p (rev s))"

definition trim :: "string \<Rightarrow> string" where
  "trim s = strip_end is_space (dropWhile is_space s)"

definition toLowerCase :: "string \<Rightarrow> string" where
  "toLowerCase s = map toLowerCase_char s"

definition hyphen_or_space :: "char \<Rightarrow> bool" where
  "hyphen_or_space c \<longleftrightarrow> c = CHR ''-'' \<or> is_space c"

definition normalize :: "string \<Rightarrow> string" where
  "normalize title =
     (if title = [] then []
      else
        (let n1 = removeRepackMarkers title;
             n2 = removeEditionSuffixes n1;
             n3 = removeSpecialCharacters n2;
             n4 = toLowerCase (trim (collapse_spaces False n3))
         in dropWhile hyphen_or_space (strip_end hyphen_or_space n4)))"

section \<open>Data types\<close>

text \<open>
  The interfaces of \<open>types/SteamGame.ts\<close>, \<open>types/SteamGameDetails.ts\<close> and
  \<open>types/EnrichedGameData.ts\<close>. An optional field is an \<open>option\<close>. Field names that
  several interfaces share carry a prefix. Prices, ages, scores and counts sent by the
  remote service are integers.
\<close>

record SteamGame =
  appId :: string
  name :: string
  matchScore :: "real option"

record PriceOverview =
  currency :: string
  initial :: int
  final :: int
  discountPercent :: int
  initialFormatted :: string
  finalFormatted :: string

record ReleaseDate =
  comingSoon :: bool
  date :: string

record Category =
  cat_id :: int
  cat_description :: string

record Genre =
  genre_id :: string
  genre_description :: string

record Screenshot =
  shot_id :: int
  pathThumbnail :: string
  pathFull :: string

record Metacritic =
  mc_score :: int
  mc_url :: string

record Recommendations =
  rec_total :: int

record ContentDescriptors =
  ids :: "int list"
  cd_notes :: "string option"

record SteamGameDetails =
  d_appId :: string
  d_name :: string
  d_type :: string
  requiredAge :: int
  isFree :: bool
  detailedDescription :: string
  shortDescription :: string
  headerImage :: string
  publishers :: "string list"
  developers :: "string list"
  priceOverview :: "PriceOverview option"
  releaseDate :: ReleaseDate
  categories :: "Category list"
  genres :: "Genre list"
  screenshots :: "Screenshot list"
  metacritic :: "Metacritic option"
  recommendations :: "Recommendations option"
  contentDescriptors :: ContentDescriptors

record SteamRating =
  percent :: int
  total :: int

record Rating =
  r_metacritic :: "int option"
  r_steam :: "SteamRating option"

record EnrichedGameData =
  e_steamId :: "string option"
  e_steamUrl :: "string option"
  e_coverUrl :: "string option"
  e_price :: "string option"
  e_releaseDate :: "string option"
  e_categories :: "string list option"
  e_rating :: "Rating option"
  e_screenshots :: "string list option"
  e_isAdult :: "bool option"

text \<open>The errors of \<open>errors/SteamErrors.ts\<close>, and any other exception a call may raise.\<close>

datatype error =
    SteamApiError string int
  | GameNotFoundError string
  | RateLimitError int
  | InvalidApiKeyError
  | OtherError string

section \<open>Price formatter and metadata extractor\<close>

text \<open>\<open>utils/PriceFormatter.ts\<close>.\<close>

definition format :: "PriceOverview \<Rightarrow> string" where
  "format po = finalFormatted po"

definition formatFree :: string where
  "formatFree = ''Free to Play''"

text \<open>
  \<open>services/MetadataExtractor.ts\<close>. Both parameters of \<open>formatPrice\<close> are optional; an
  absent \<open>isFree\<close> is falsy, a present price record is truthy.
\<close>

definition formatPrice :: "PriceOverview option \<Rightarrow> bool option \<Rightarrow> string option" where
  "formatPrice po free =
     (if free = Some True then Some formatFree
      else (case po of Some p \<Rightarrow> Some (format p) | None \<Rightarrow> None))"

text \<open>\<open>Array.prototype.slice(0, limit)\<close>: a negative limit counts from the end.\<close>

definition slice0 :: "int \<Rightarrow> 'a list \<Rightarrow> 'a list" where
  "slice0 limit xs =
     (if limit < 0 then take (length xs - nat (- limit)) xs else take (nat limit) xs)"

definition DEFAULT_SCREENSHOT_LIMIT :: int where
  "DEFAULT_SCREENSHOT_LIMIT = 3"

definition extractScreenshots :: "SteamGameDetails \<Rightarrow> int \<Rightarrow> string list" where
  "extractScreenshots details limit =
     (if screenshots details = [] then []
      else map pathFull (slice0 limit (screenshots details)))"

definition extractCategories :: "SteamGameDetails \<Rightarrow> string list" where
  "extractCategories details =
     map genre_description (genres details) @ map cat_description (categories details)"

definition calculateSteamRating :: "Recommendations option \<Rightarrow> SteamRating option" where
  "calculateSteamRating recs =
     (case recs of
        None \<Rightarrow> None
      | Some r \<Rightarrow> if rec_total r = 0 then None else Some \<lparr>percent = 0, total = rec_total r\<rparr>)"

definition extractRating :: "SteamGameDetails \<Rightarrow> Rating option" where
  "extractRating details =
     (let mc = map_option mc_score (metacritic details);
          steam = calculateSteamRating (recommendations details)
      in if (mc = None \<or> mc = Some 0) \<and> steam = None then None
         else Some \<lparr>r_metacritic = mc, r_steam = steam\<rparr>)"

definition nonempty :: "string \<Rightarrow> string option" where
  "nonempty s = (if s = [] then None else Some s)"

definition extractMetadata :: "SteamGameDetails \<Rightarrow> EnrichedGameData" where
  "extractMetadata details =
     \<lparr>e_steamId = Some (d_appId details),
      e_steamUrl = Some (''https://store.steampowered.com/app/'' @ d_appId details @ ''/''),
      e_coverUrl = nonempty (headerImage details),
      e_price = formatPrice (priceOverview details) (Some (isFree details)),
      e_releaseDate = nonempty (date (releaseDate details)),
      e_categories = Some (extractCategories details),
      e_rating = extractRating details,
      e_screenshots = Some (extractScreenshots details DEFAULT_SCREENSHOT_LIMIT),
      e_isAdult = None\<rparr>"

section \<open>Adult content detector\<close>

text \<open>\<open>services/AdultContentDetector.ts\<close>.\<close>

definition ADULT_DESCRIPTOR_ID :: int where
  "ADULT_DESCRIPTOR_ID = 3"

definition ADULT_AGE_THRESHOLD :: int where
  "ADULT_AGE_THRESHOLD = 18"

definition hasAgeRestriction :: "int \<Rightarrow> bool" where
  "hasAgeRestriction age \<longleftrightarrow> age \<ge> ADULT_AGE_THRESHOLD"

definition hasAdultDescriptor :: "int list \<Rightarrow> bool" where
  "hasAdultDescriptor descriptorIds \<longleftrightarrow>
     (if descriptorIds = [] then False else List.member descriptorIds ADULT_DESCRIPTOR_ID)"

text \<open>\<open>String.prototype.includes\<close>.\<close>

fun str_includes :: "string \<Rightarrow> string \<Rightarrow> bool" where
  "str_includes [] needle = (needle = [])"
| "str_includes (c # cs) needle = (prefix needle (c # cs) \<or> str_includes cs needle)"

definition hasAdultCategory :: "Category list \<Rightarrow> bool" where
  "hasAdultCategory cats \<longleftrightarrow>
     (if cats = [] then False
      else list_ex (\<lambda>cat. str_includes (toLowerCase (cat_description cat)) ''adult only'') cats)"

definition isAdult :: "SteamGameDetails \<Rightarrow> bool" where
  "isAdult details \<longleftrightarrow>
     (if hasAgeRestriction (requiredAge details) then True
      else if hasAdultDescriptor (ids (contentDescriptors details)) then True
      else if hasAdultCategory (categories details) then True
      else False)"

section \<open>TTL/LRU cache\<close>

text \<open>
  Modelled from the spec: the store of the \<open>lru-cache\<close> package, which class \<open>Cache\<close> wraps
  and which is not among the sources. Following section 4.2: an entry is visible iff the
  current time is before its expiry time; a lookup of a visible entry makes it the most
  recently used one and keeps its expiry time; an expired entry found by a lookup is dropped;
  an insertion replaces the entry of its key, takes the given time to live or else the
  default one, and evicts the least recently used entries beyond the capacity; the existence
  check changes nothing. The entries are listed most recently used first, each with its
  expiry time.
\<close>

record ('k, 'v) LRUCache =
  lru_max :: nat
  lru_ttl :: int
  lru_entries :: "('k \<times> 'v \<times> int) list"

definition lru_new :: "nat \<Rightarrow> int \<Rightarrow> ('k, 'v) LRUCache" where
  "lru_new maxSize ttl = \<lparr>lru_max = maxSize, lru_ttl = ttl, lru_entries = []\<rparr>"

definition lru_without :: "'k \<Rightarrow> ('k \<times> 'v \<times> int) list \<Rightarrow> ('k \<times> 'v \<times> int) list" where
  "lru_without k es = filter (\<lambda>e. fst e \<noteq> k) es"

definition lru_get :: "int \<Rightarrow> 'k \<Rightarrow> ('k, 'v) LRUCache \<Rightarrow> 'v option \<times> ('k, 'v) LRUCache" where
  "lru_get now k s =
     (case map_of (lru_entries s) k of
        None \<Rightarrow> (None, s)
      | Some (v, expiresAt) \<Rightarrow>
          if now < expiresAt
          then (Some v, s\<lparr>lru_entries := (k, v, expiresAt) # lru_without k (lru_entries s)\<rparr>)
          else (None, s\<lparr>lru_entries := lru_without k (lru_entries s)\<rparr>))"

definition lru_set :: "int \<Rightarrow> 'k \<Rightarrow> 'v \<Rightarrow> int option \<Rightarrow> ('k, 'v) LRUCache \<Rightarrow> ('k, 'v) LRUCache" where
  "lru_set now k v ttl s =
     (let t = (case ttl of None \<Rightarrow> lru_ttl s | Some t \<Rightarrow> t) in
      s\<lparr>lru_entries := take (lru_max s) ((k, v, now + t) # lru_without k (lru_entries s))\<rparr>)"

definition lru_has :: "int \<Rightarrow> 'k \<Rightarrow> ('k, 'v) LRUCache \<Rightarrow> bool" where
  "lru_has now k s =
     (case map_of (lru_entries s) k of None \<Rightarrow> False | Some (v, expiresAt) \<Rightarrow> now < expiresAt)"

definition lru_clear :: "('k, 'v) LRUCache \<Rightarrow> ('k, 'v) LRUCache" where
  "lru_clear s = s\<lparr>lru_entries := []\<rparr>"

definition lru_size :: "('k, 'v) LRUCache \<Rightarrow> nat" where
  "lru_size s = length (lru_entries s)"

text \<open>
  Class \<open>Cache\<close> (\<open>infrastructure/Cache.ts\<close>): the store and the two counters. The clock
  that the store reads is a parameter of the operations.
\<close>

record ('k, 'v) Cache =
  cache :: "('k, 'v) LRUCache"
  hits :: nat
  misses :: nat

record Stats =
  stats_size :: nat
  stats_hitRate :: real

definition Cache_new :: "nat \<Rightarrow> int \<Rightarrow> ('k, 'v) Cache" where
  "Cache_new maxSize ttl = \<lparr>cache = lru_new maxSize ttl, hits = 0, misses = 0\<rparr>"

definition Cache_get :: "int \<Rightarrow> 'k \<Rightarrow> ('k, 'v) Cache \<Rightarrow> 'v option \<times> ('k, 'v) Cache" where
  "Cache_get now key c =
     (let (val, store) = lru_get now key (cache c) in
      if val \<noteq> None then (val, c\<lparr>cache := store, hits := hits c + 1\<rparr>)
      else (val, c\<lparr>cache := store, misses := misses c + 1\<rparr>))"

definition Cache_set :: "int \<Rightarrow> 'k \<Rightarrow> 'v \<Rightarrow> int option \<Rightarrow> ('k, 'v) Cache \<Rightarrow> ('k, 'v) Cache" where
  "Cache_set now key val ttl c = c\<lparr>cache := lru_set now key val ttl (cache c)\<rparr>"

definition Cache_has :: "int \<Rightarrow> 'k \<Rightarrow> ('k, 'v) Cache \<Rightarrow> bool" where
  "Cache_has now key c = lru_has now key (cache c)"

definition Cache_clear :: "('k, 'v) Cache \<Rightarrow> ('k, 'v) Cache" where
  "Cache_clear c = c\<lparr>cache := lru_clear (cache c), hits := 0, misses := 0\<rparr>"

definition Cache_getStats :: "('k, 'v) Cache \<Rightarrow> Stats" where
  "Cache_getStats c =
     (let totalRequests = hits c + misses c;
          hitRate = (if totalRequests > 0 then real (hits c) / real totalRequests else 0)
      in \<lparr>stats_size = lru_size (cache c), stats_hitRate = hitRate\<rparr>)"

text \<open>
  A call of the cache's interface with the clock reading it makes, and the history of a
  cache: every call with the value it returned, if it is a lookup that returned one.
\<close>

datatype ('k, 'v) cache_call =
    CallGet int 'k
  | CallSet int 'k 'v "int option"
  | CallHas int 'k
  | CallClear

fun cache_step :: "('k, 'v) Cache \<Rightarrow> ('k, 'v) cache_call \<Rightarrow> ('k, 'v) Cache" where
  "cache_step c (CallGet now k) = snd (Cache_get now k c)"
| "cache_step c (CallSet now k v ttl) = Cache_set now k v ttl c"
| "cache_step c (CallHas now k) = c"
| "cache_step c CallClear = Cache_clear c"

fun cache_returned :: "('k, 'v) Cache \<Rightarrow> ('k, 'v) cache_call \<Rightarrow> 'v option" where
  "cache_returned c (CallGet now k) = fst (Cache_get now k c)"
| "cache_returned c (CallSet now k v ttl) = None"
| "cache_returned c (CallHas now k) = None"
| "cache_returned c CallClear = None"

fun cache_history :: "('k, 'v) Cache \<Rightarrow> ('k, 'v) cache_call list
    \<Rightarrow> (('k, 'v) cache_call \<times> 'v option) list" where
  "cache_history c [] = []"
| "cache_history c (x # xs) = (x, cache_returned c x) # cache_history (cache_step c x) xs"

definition cache_run :: "('k, 'v) Cache \<Rightarrow> ('k, 'v) cache_call list \<Rightarrow> ('k, 'v) Cache" where
  "cache_run c xs = foldl cache_step c xs"

text \<open>
  The hit rate in the words of the specification: among the lookups (calls of \<open>get\<close>) since
  the last \<open>clear\<close>, the share of those that returned a value; 0 when there is none. Calls
  of \<open>has\<close> and \<open>set\<close> are not counted.
\<close>

fun is_clear :: "('k, 'v) cache_call \<times> 'v option \<Rightarrow> bool" where
  "is_clear (CallClear, r) = True"
| "is_clear (x, r) = False"

fun is_lookup :: "('k, 'v) cache_call \<times> 'v option \<Rightarrow> bool" where
  "is_lookup (CallGet now k, r) = True"
| "is_lookup (x, r) = False"

definition is_hit :: "('k, 'v) cache_call \<times> 'v option \<Rightarrow> bool" where
  "is_hit e \<longleftrightarrow> is_lookup e \<and> snd e \<noteq> None"

fun after_last_clear :: "(('k, 'v) cache_call \<times> 'v option) list
    \<Rightarrow> (('k, 'v) cache_call \<times> 'v option) list \<Rightarrow> (('k, 'v) cache_call \<times> 'v option) list" where
  "after_last_clear acc [] = acc"
| "after_last_clear acc (e # es) =
     (if is_clear e then after_last_clear [] es else after_last_clear (acc @ [e]) es)"

definition spec_hitRate :: "(('k, 'v) cache_call \<times> 'v option) list \<Rightarrow> real" where
  "spec_hitRate history =
     (let recent = after_last_clear [] history;
          lookups = length (filter is_lookup recent);
          found = length (filter is_hit recent)
      in if lookups = 0 then 0 else real found / real lookups)"

section \<open>Game matcher\<close>

text \<open>
  Class \<open>GameMatcher\<close> (\<open>services/GameMatcher.ts\<close>) and class \<open>SteamClient\<close>. The client
  owns the two caches; the matcher holds a reference to the same catalogue cache and its own
  field \<open>fuse\<close>, so one record has the state of both. The field \<open>fuse\<close> is the collection
  that the search index was built from, or none while no index exists. \<open>apiCalls\<close> records
  the methods of the API client that were invoked, in order; it is there to observe them.

  The API client is the boundary of the model: a call of one of its methods is the outcome
  it has, an error or a value. The awaited calls of one operation see one reading of the
  clock.
\<close>

record RawApp =
  appid :: int
  raw_name :: string

record Remote =
  getAppList_outcome :: "error + RawApp list"
  getGameDetails_outcome :: "string \<Rightarrow> error + SteamGameDetails"

datatype api_call = GetAppList | GetGameDetails string

record SteamClient =
  appListCache :: "(string, SteamGame list) Cache"
  detailsCache :: "(string, SteamGameDetails) Cache"
  fuse :: "SteamGame list option"
  apiCalls :: "api_call list"

text \<open>
  The package \<open>fuse.js\<close> is not among the sources: its search is a parameter, a function of
  the indexed collection, the query and the limit that gives the results in the order the
  library returns them, each with the item, its position in the collection and its distance.
\<close>

record FuseResult =
  item :: SteamGame
  refIndex :: nat
  score :: "real option"

type_synonym fuse_search = "SteamGame list \<Rightarrow> string \<Rightarrow> int \<Rightarrow> FuseResult list"

definition APP_LIST_CACHE_KEY :: string where
  "APP_LIST_CACHE_KEY = ''steam_app_list''"

text \<open>\<open>String(n)\<close> for an integer: its decimal digits, after a minus sign if it is negative.\<close>

function digits :: "int \<Rightarrow> string" where
  "digits n =
     (if n < 10 then [char_of (48 + n)]
      else digits (n div 10) @ [char_of (48 + n mod 10)])"
  by pat_completeness auto
termination
  by (relation "measure nat") auto

definition String_of_int :: "int \<Rightarrow> string" where
  "String_of_int n = (if n < 0 then CHR ''-'' # digits (- n) else digits n)"

text \<open>The guard \<open>!title || title.trim().length === 0\<close>.\<close>

definition blank :: "string \<Rightarrow> bool" where
  "blank title \<longleftrightarrow> title = [] \<or> length (trim title) = 0"

definition getAppList :: "Remote \<Rightarrow> int \<Rightarrow> SteamClient \<Rightarrow> (error + SteamGame list) \<times> SteamClient" where
  "getAppList remote now st =
     (let (cached, c1) = Cache_get now APP_LIST_CACHE_KEY (appListCache st);
          st1 = st\<lparr>appListCache := c1\<rparr>
      in case cached of
           Some appList \<Rightarrow> (Inr appList, st1)
         | None \<Rightarrow>
             (let st2 = st1\<lparr>apiCalls := apiCalls st1 @ [GetAppList]\<rparr> in
              case getAppList_outcome remote of
                Inl e \<Rightarrow> (Inl e, st2)
              | Inr rawAppList \<Rightarrow>
                  (let appList = map (\<lambda>app. \<lparr>appId = String_of_int (appid app),
                                              name = raw_name app, matchScore = None\<rparr>) rawAppList
                   in (Inr appList,
                       st2\<lparr>appListCache :=
                             Cache_set now APP_LIST_CACHE_KEY appList (Some 86400000) (appListCache st2)\<rparr>))))"

definition ensureFuseInitialized :: "Remote \<Rightarrow> int \<Rightarrow> SteamClient \<Rightarrow> (error + unit) \<times> SteamClient" where
  "ensureFuseInitialized remote now st =
     (case fuse st of
        Some index \<Rightarrow> (Inr (), st)
      | None \<Rightarrow>
          (case getAppList remote now st of
             (Inl e, st1) \<Rightarrow> (Inl e, st1)
           | (Inr appList, st1) \<Rightarrow> (Inr (), st1\<lparr>fuse := Some appList\<rparr>)))"

definition within_threshold :: "real \<Rightarrow> FuseResult \<Rightarrow> bool" where
  "within_threshold threshold result \<longleftrightarrow> (case score result of None \<Rightarrow> False | Some d \<Rightarrow> d \<le> threshold)"

definition scored :: "FuseResult \<Rightarrow> SteamGame" where
  "scored result =
     \<lparr>appId = appId (item result), name = name (item result),
      matchScore = Some (case score result of Some d \<Rightarrow> 1 - d | None \<Rightarrow> 0)\<rparr>"

definition findMatches :: "fuse_search \<Rightarrow> Remote \<Rightarrow> int \<Rightarrow> string \<Rightarrow> int \<Rightarrow> real \<Rightarrow> SteamClient
    \<Rightarrow> (error + SteamGame list) \<times> SteamClient" where
  "findMatches search remote now title limit threshold st =
     (if blank title then (Inr [], st)
      else
        (case ensureFuseInitialized remote now st of
           (Inl e, st1) \<Rightarrow> (Inl e, st1)
         | (Inr u, st1) \<Rightarrow>
             (case fuse st1 of
                None \<Rightarrow> (Inr [], st1)
              | Some index \<Rightarrow>
                  (let normalizedTitle = normalize title;
                       results = search index normalizedTitle limit
                   in (Inr (map scored (filter (within_threshold threshold) results)), st1)))))"

definition getExactMatch :: "Remote \<Rightarrow> int \<Rightarrow> string \<Rightarrow> SteamClient
    \<Rightarrow> (error + SteamGame option) \<times> SteamClient" where
  "getExactMatch remote now title st =
     (case getAppList remote now st of
        (Inl e, st1) \<Rightarrow> (Inl e, st1)
      | (Inr appList, st1) \<Rightarrow>
          (let normalizedTitle = normalize title in
           (Inr (find (\<lambda>app. normalize (name app) = normalizedTitle) appList), st1)))"

definition findBestMatch :: "fuse_search \<Rightarrow> Remote \<Rightarrow> int \<Rightarrow> string \<Rightarrow> real \<Rightarrow> SteamClient
    \<Rightarrow> (error + SteamGame option) \<times> SteamClient" where
  "findBestMatch search remote now title threshold st =
     (if blank title then (Inr None, st)
      else
        (case getExactMatch remote now title st of
           (Inl e, st1) \<Rightarrow> (Inl e, st1)
         | (Inr (Some exactMatch), st1) \<Rightarrow> (Inr (Some (exactMatch\<lparr>matchScore := Some 1\<rparr>)), st1)
         | (Inr None, st1) \<Rightarrow>
             (case findMatches search remote now title 1 threshold st1 of
                (Inl e, st2) \<Rightarrow> (Inl e, st2)
              | (Inr matches, st2) \<Rightarrow>
                  (Inr (case matches of [] \<Rightarrow> None | m # ms \<Rightarrow> Some m), st2))))"

section \<open>Client\<close>

text \<open>
  Class \<open>SteamClient\<close>. Of the configuration the model keeps what the caches take; the
  rest configures the API client.
\<close>

record SteamClientConfig =
  cacheTTL :: "int option"
  cacheSize :: "nat option"

record SearchOptions =
  fuzzyThreshold :: "real option"
  includeAdult :: "bool option"
  bypassCache :: "bool option"

definition DEFAULT_cacheTTL :: int where
  "DEFAULT_cacheTTL = 3600000"

definition DEFAULT_cacheSize :: nat where
  "DEFAULT_cacheSize = 1000"

definition DEFAULT_fuzzyThreshold :: real where
  "DEFAULT_fuzzyThreshold = 3 / 10"

definition DEFAULT_includeAdult :: bool where
  "DEFAULT_includeAdult = False"

definition SteamClient_new :: "SteamClientConfig \<Rightarrow> SteamClient" where
  "SteamClient_new config =
     \<lparr>appListCache = Cache_new 1 86400000,
      detailsCache = Cache_new (case cacheSize config of None \<Rightarrow> DEFAULT_cacheSize | Some n \<Rightarrow> n)
                               (case cacheTTL config of None \<Rightarrow> DEFAULT_cacheTTL | Some t \<Rightarrow> t),
      fuse = None,
      apiCalls = []\<rparr>"

definition getGameDetails :: "Remote \<Rightarrow> int \<Rightarrow> string \<Rightarrow> SteamClient
    \<Rightarrow> (error + SteamGameDetails) \<times> SteamClient" where
  "getGameDetails remote now app st =
     (let (cached, c1) = Cache_get now app (detailsCache st);
          st1 = st\<lparr>detailsCache := c1\<rparr>
      in case cached of
           Some details \<Rightarrow> (Inr details, st1)
         | None \<Rightarrow>
             (let st2 = st1\<lparr>apiCalls := apiCalls st1 @ [GetGameDetails app]\<rparr> in
              case getGameDetails_outcome remote app of
                Inl e \<Rightarrow> (Inl e, st2)
              | Inr details \<Rightarrow>
                  (Inr details,
                   st2\<lparr>detailsCache := Cache_set now app details None (detailsCache st2)\<rparr>)))"

definition isAdultContent :: "Remote \<Rightarrow> int \<Rightarrow> SteamGame \<Rightarrow> SteamClient \<Rightarrow> bool \<times> SteamClient" where
  "isAdultContent remote now game st =
     (case getGameDetails remote now (appId game) st of
        (Inr details, st1) \<Rightarrow> (isAdult details, st1)
      | (Inl e, st1) \<Rightarrow> (False, st1))"

definition isAdultContentFiltered :: "Remote \<Rightarrow> int \<Rightarrow> SteamGame \<Rightarrow> SteamClient \<Rightarrow> bool \<times> SteamClient" where
  "isAdultContentFiltered remote now game st =
     (let (adult, st1) = isAdultContent remote now game st in (\<not> adult, st1))"

definition searchGame :: "fuse_search \<Rightarrow> Remote \<Rightarrow> int \<Rightarrow> string \<Rightarrow> SearchOptions \<Rightarrow> SteamClient
    \<Rightarrow> (error + SteamGame option) \<times> SteamClient" where
  "searchGame search remote now title options st =
     (let opts_fuzzyThreshold =
            (case fuzzyThreshold options of None \<Rightarrow> DEFAULT_fuzzyThreshold | Some t \<Rightarrow> t);
          opts_includeAdult =
            (case includeAdult options of None \<Rightarrow> DEFAULT_includeAdult | Some b \<Rightarrow> b)
      in case findBestMatch search remote now title opts_fuzzyThreshold st of
           (Inl e, st1) \<Rightarrow> (Inl e, st1)
         | (Inr None, st1) \<Rightarrow> (Inr None, st1)
         | (Inr (Some match), st1) \<Rightarrow>
             if opts_includeAdult then (Inr (Some match), st1)
             else
               (let (safe, st2) = isAdultContentFiltered remote now match st1 in
                if \<not> safe then (Inr None, st2) else (Inr (Some match), st2)))"

definition searchGames :: "fuse_search \<Rightarrow> Remote \<Rightarrow> int \<Rightarrow> string \<Rightarrow> int \<Rightarrow> SteamClient
    \<Rightarrow> (error + SteamGame list) \<times> SteamClient" where
  "searchGames search remote now title limit st =
     findMatches search remote now title limit DEFAULT_fuzzyThreshold st"

definition clearCache :: "SteamClient \<Rightarrow> SteamClient" where
  "clearCache st =
     st\<lparr>appListCache := Cache_clear (appListCache st), detailsCache := Cache_clear (detailsCache st)\<rparr>"

record CacheStats =
  appListSize :: nat
  detailsCacheSize :: nat
  hitRate :: real

definition getCacheStats :: "SteamClient \<Rightarrow> CacheStats" where
  "getCacheStats st =
     (let appListStats = Cache_getStats (appListCache st);
          detailsStats = Cache_getStats (detailsCache st);
          totalHits = stats_hitRate appListStats * real (stats_size appListStats)
                    + stats_hitRate detailsStats * real (stats_size detailsStats);
          totalSize = stats_size appListStats + stats_size detailsStats;
          combinedHitRate = (if totalSize > 0 then totalHits / real totalSize else 0)
      in \<lparr>appListSize = stats_size appListStats,
          detailsCacheSize = stats_size detailsStats,
          hitRate = combinedHitRate\<rparr>)"

section \<open>Ranking of search results\<close>



section \<open>Sample data\<close>

text \<open>Concrete values for the examples: a client, remote services, game details, search results.\<close>

definition sample_client :: SteamClient where
  "sample_client = SteamClient_new \<lparr>cacheTTL = None, cacheSize = None\<rparr>"

definition sample_remote :: "RawApp list \<Rightarrow> (string \<Rightarrow> error + SteamGameDetails) \<Rightarrow> Remote" where
  "sample_remote apps details = \<lparr>getAppList_outcome = Inr apps, getGameDetails_outcome = details\<rparr>"

definition sample_details :: "string \<Rightarrow> SteamGameDetails" where
  "sample_details app =
     \<lparr>d_appId = app, d_name = ''Dota 2'', d_type = ''game'', requiredAge = 0, isFree = True,
      detailedDescription = [], shortDescription = [], headerImage = [],
      publishers = [], developers = [], priceOverview = None,
      releaseDate = \<lparr>comingSoon = False, date = ''Jul 9, 2013''\<rparr>,
      categories = [], genres = [], screenshots = [], metacritic = None, recommendations = None,
      contentDescriptors = \<lparr>ids = [], cd_notes = None\<rparr>\<rparr>"


text \<open>A search that finds every item of the collection, at distance 0.\<close>

definition all_at_distance_0 :: fuse_search where
  "all_at_distance_0 index q limit =
     map (\<lambda>(i, g). \<lparr>item = g, refIndex = i, score = Some 0\<rparr>) (enumerate 0 index)"

section \<open>Properties of the token bucket\<close>

lemma refill_config [simp]:
  "capacity (refill now b) = capacity b" "refillInterval (refill now b) = refillInterval b"
  by (simp_all add: refill_def Let_def)









section \<open>Properties of the title normalizer\<close>

text \<open>
  C6. The five equations of the normalizer: the repack annotation with its qualifier is
  removed, the edition suffix and the colon before it are removed, the hyphen of
  \<open>Spider-Man\<close> is kept, and the empty string and a string of special characters both give
  the empty string.
\<close>

theorem normalize_examples:
  "normalize ''Cyberpunk 2077 (FitGirl Repack, Selective Download)'' = ''cyberpunk 2077''
   \<and> normalize ''Grand Theft Auto V: Premium Edition'' = ''grand theft auto v''
   \<and> normalize ''Spider-Man'' = ''spider-man''
   \<and> normalize '''' = ''''
   \<and> normalize ''!@#$%'' = ''''"
  by code_simp

section \<open>Properties of the price extraction\<close>

text \<open>
  C10. For game details with \<open>isFree = true\<close> the formatted and the extracted price is the
  string \<open>Free to Play\<close>, whatever the price record, present or absent; with \<open>isFree\<close> false
  and no price record the price is absent.
\<close>

theorem free_price_precedence:
  "formatPrice po (Some True) = Some ''Free to Play''
   \<and> e_price (extractMetadata (details\<lparr>isFree := True\<rparr>)) = Some ''Free to Play''
   \<and> e_price (extractMetadata (details\<lparr>isFree := True, priceOverview := Some p\<rparr>)) = Some ''Free to Play''
   \<and> formatPrice None (Some False) = None
   \<and> e_price (extractMetadata (details\<lparr>isFree := False, priceOverview := None\<rparr>)) = None"
  by (simp add: formatPrice_def formatFree_def extractMetadata_def)

section \<open>Properties of the cache statistics\<close>

lemma Cache_get_counters:
  "hits (snd (Cache_get now k c)) = hits c + (if fst (Cache_get now k c) \<noteq> None then 1 else 0)"
  "misses (snd (Cache_get now k c)) = misses c + (if fst (Cache_get now k c) \<noteq> None then 0 else 1)"
  by (simp_all add: Cache_get_def split: prod.splits)

lemma is_hit_simps [simp]:
  "is_hit (CallGet now k, r) = (r \<noteq> None)"
  "is_hit (CallSet now k v ttl, r) = False"
  "is_hit (CallHas now k, r) = False"
  "is_hit (CallClear, r) = False"
  by (simp_all add: is_hit_def)

lemma counters_run:
  "hits c = length (filter is_hit acc) \<Longrightarrow>
   hits c + misses c = length (filter is_lookup acc) \<Longrightarrow>
   hits (cache_run c xs) = length (filter is_hit (after_last_clear acc (cache_history c xs)))
   \<and> hits (cache_run c xs) + misses (cache_run c xs)
       = length (filter is_lookup (after_last_clear acc (cache_history c xs)))"
proof (induction xs arbitrary: c acc)
  case Nil
  then show ?case by (simp add: cache_run_def)
next
  case (Cons x xs)
  have run: "cache_run c (x # xs) = cache_run (cache_step c x) xs"
    by (simp add: cache_run_def)
  show ?case
  proof (cases x)
    case (CallGet now k)
    let ?e = "(x, cache_returned c x)"
    have a: "hits (cache_step c x) = length (filter is_hit (acc @ [?e]))"
      using Cons.prems CallGet by (simp add: Cache_get_counters)
    have b: "hits (cache_step c x) + misses (cache_step c x) = length (filter is_lookup (acc @ [?e]))"
      using Cons.prems CallGet by (simp add: Cache_get_counters)
    from Cons.IH [OF a b] show ?thesis using CallGet run by simp
  next
    case (CallSet now k v ttl)
    let ?e = "(x, cache_returned c x)"
    have a: "hits (cache_step c x) = length (filter is_hit (acc @ [?e]))"
      using Cons.prems CallSet by (simp add: Cache_set_def)
    have b: "hits (cache_step c x) + misses (cache_step c x) = length (filter is_lookup (acc @ [?e]))"
      using Cons.prems CallSet by (simp add: Cache_set_def)
    from Cons.IH [OF a b] show ?thesis using CallSet run by simp
  next
    case (CallHas now k)
    let ?e = "(x, cache_returned c x)"
    have a: "hits (cache_step c x) = length (filter is_hit (acc @ [?e]))"
      using Cons.prems CallHas by simp
    have b: "hits (cache_step c x) + misses (cache_step c x) = length (filter is_lookup (acc @ [?e]))"
      using Cons.prems CallHas by simp
    from Cons.IH [OF a b] show ?thesis using CallHas run by simp
  next
    case CallClear
    have a: "hits (cache_step c x) = length (filter is_hit ([] :: (('a, 'b) cache_call \<times> 'b option) list))"
      using CallClear by (simp add: Cache_clear_def)
    have b: "hits (cache_step c x) + misses (cache_step c x)
        = length (filter is_lookup ([] :: (('a, 'b) cache_call \<times> 'b option) list))"
      using CallClear by (simp add: Cache_clear_def)
    from Cons.IH [OF a b] show ?thesis using CallClear run by simp
  qed
qed

lemma Cache_hitRate_spec:
  "stats_hitRate (Cache_getStats (cache_run (Cache_new m t) xs))
     = spec_hitRate (cache_history (Cache_new m t) xs)"
proof -
  let ?c = "Cache_new m t :: ('a, 'b) Cache"
  let ?r = "cache_run ?c xs"
  let ?recent = "after_last_clear [] (cache_history ?c xs)"
  have "hits ?c = length (filter is_hit ([] :: (('a, 'b) cache_call \<times> 'b option) list))"
    and "hits ?c + misses ?c = length (filter is_lookup ([] :: (('a, 'b) cache_call \<times> 'b option) list))"
    by (simp_all add: Cache_new_def)
  from counters_run [OF this, of xs]
  have h: "hits ?r = length (filter is_hit ?recent)"
    and l: "hits ?r + misses ?r = length (filter is_lookup ?recent)"
    by simp_all
  have "stats_hitRate (Cache_getStats ?r)
      = (if hits ?r + misses ?r > 0 then real (hits ?r) / real (hits ?r + misses ?r) else 0)"
    by (simp add: Cache_getStats_def Let_def)
  also have "\<dots> = (if length (filter is_lookup ?recent) = 0 then 0
      else real (length (filter is_hit ?recent)) / real (length (filter is_lookup ?recent)))"
    unfolding l unfolding h by simp
  also have "\<dots> = spec_hitRate (cache_history ?c xs)"
    by (simp add: spec_hitRate_def Let_def)
  finally show ?thesis .
qed

text \<open>
  C8. The combined hit rate is the mean of the two caches' hit rates weighted by their entry
  counts, and 0 when both caches are empty; the hit rate of each cache is the share of the
  lookups since its last \<open>clear\<close> that returned a value, 0 when there was none, and calls
  of \<open>has\<close> are not counted.
\<close>

theorem getCacheStats_weighted:
  "hitRate (getCacheStats (st\<lparr>appListCache := cache_run (Cache_new 1 86400000) xs,
                               detailsCache := cache_run (Cache_new n ttl) ys\<rparr>))
     = (let appListHitRate = spec_hitRate (cache_history (Cache_new 1 86400000) xs);
            detailsHitRate = spec_hitRate (cache_history (Cache_new n ttl) ys);
            appListSize = real (lru_size (cache (cache_run (Cache_new 1 86400000) xs)));
            detailsSize = real (lru_size (cache (cache_run (Cache_new n ttl) ys)))
        in if appListSize + detailsSize > 0
           then (appListHitRate * appListSize + detailsHitRate * detailsSize) / (appListSize + detailsSize)
           else 0)"
proof -
  have sa: "stats_size (Cache_getStats c) = lru_size (cache c)" for c :: "('a, 'b) Cache"
    by (simp add: Cache_getStats_def Let_def)
  show ?thesis
    by (simp add: getCacheStats_def Let_def sa Cache_hitRate_spec)
qed

theorem getCacheStats_weighted_witness:
  "hitRate (getCacheStats (sample_client
      \<lparr>appListCache := cache_run (Cache_new 1 86400000)
          [CallGet 0 ''k'', CallSet 0 ''k'' [] None, CallGet 1 ''k'', CallHas 2 ''k''],
       detailsCache := cache_run (Cache_new 1000 3600000) [CallGet 5 ''a'', CallClear]\<rparr>)) = 1 / 2"
  using getCacheStats_weighted [where st = sample_client
      and xs = "[CallGet 0 ''k'', CallSet 0 ''k'' [] None, CallGet 1 ''k'', CallHas 2 ''k'']"
      and n = 1000 and ttl = 3600000 and ys = "[CallGet 5 ''a'', CallClear]"]
  by (simp add: spec_hitRate_def cache_run_def Cache_get_def Cache_set_def
      Cache_new_def Cache_clear_def lru_get_def lru_set_def lru_new_def lru_clear_def lru_size_def
      lru_without_def Let_def is_hit_def)

section \<open>Properties of the details cache\<close>

lemma lru_get_miss_entries:
  "fst (lru_get now k s) = None \<Longrightarrow>
   snd (lru_get now k s) = s\<lparr>lru_entries := lru_without k (lru_entries s)\<rparr>"
proof (cases "map_of (lru_entries s) k")
  case None
  then have "k \<notin> fst ` set (lru_entries s)" by (simp add: map_of_eq_None_iff)
  then have "lru_without k (lru_entries s) = lru_entries s"
    unfolding lru_without_def by (auto simp: filter_id_conv)
  with None show ?thesis by (simp add: lru_get_def)
next
  case (Some a)
  assume "fst (lru_get now k s) = None"
  with Some show ?thesis
    by (cases a) (simp add: lru_get_def split: if_splits)
qed

lemma lru_get_without:
  "fst (lru_get now k (s\<lparr>lru_entries := lru_without k es\<rparr>)) = None"
proof -
  have "k \<notin> fst ` set (lru_without k es)" by (auto simp: lru_without_def)
  then have "map_of (lru_without k es) k = None" by (simp add: map_of_eq_None_iff)
  then show ?thesis by (simp add: lru_get_def)
qed

lemma Cache_get_fst: "fst (Cache_get now k c) = fst (lru_get now k (cache c))"
  by (simp add: Cache_get_def split: prod.splits)

lemma Cache_get_cache: "cache (snd (Cache_get now k c)) = snd (lru_get now k (cache c))"
  by (simp add: Cache_get_def split: prod.splits)

lemma getGameDetails_miss:
  assumes "fst (Cache_get now app (detailsCache st)) = None"
  shows "getGameDetails remote now app st =
     (case getGameDetails_outcome remote app of
        Inl e \<Rightarrow> (Inl e, st\<lparr>detailsCache := snd (Cache_get now app (detailsCache st)),
                              apiCalls := apiCalls st @ [GetGameDetails app]\<rparr>)
      | Inr details \<Rightarrow> (Inr details,
           st\<lparr>detailsCache := Cache_set now app details None (snd (Cache_get now app (detailsCache st))),
               apiCalls := apiCalls st @ [GetGameDetails app]\<rparr>))"
  using assms
  by (cases "Cache_get now app (detailsCache st)")
     (simp add: getGameDetails_def Let_def split: sum.splits)

lemma getGameDetails_hit:
  assumes "fst (Cache_get now app (detailsCache st)) = Some d"
  shows "getGameDetails remote now app st =
     (Inr d, st\<lparr>detailsCache := snd (Cache_get now app (detailsCache st))\<rparr>)"
  using assms
  by (cases "Cache_get now app (detailsCache st)") (simp add: getGameDetails_def Let_def)

text \<open>
  C9. When the lookup in the details cache misses and the remote fetch fails, the error is
  returned and nothing is written: the cache is the one the lookup left, its entries are
  those from before the call without an expired entry of that id, and the next
  \<open>getGameDetails\<close> for the id, at any time, calls the remote service again and returns its
  outcome. When the lookup hits, the cached details are returned and the remote service is
  not called.
\<close>

theorem getGameDetails_failure_not_cached:
  "(fst (Cache_get now app (detailsCache st)) = None \<and> getGameDetails_outcome remote app = Inl e \<longrightarrow>
      (let st' = snd (getGameDetails remote now app st) in
         fst (getGameDetails remote now app st) = Inl e
       \<and> detailsCache st' = snd (Cache_get now app (detailsCache st))
       \<and> cache (detailsCache st')
           = (cache (detailsCache st))\<lparr>lru_entries := lru_without app (lru_entries (cache (detailsCache st)))\<rparr>
       \<and> apiCalls st' = apiCalls st @ [GetGameDetails app]
       \<and> (\<forall>remote2 now2.
             fst (getGameDetails remote2 now2 app st') = getGameDetails_outcome remote2 app
           \<and> apiCalls (snd (getGameDetails remote2 now2 app st')) = apiCalls st' @ [GetGameDetails app])))
   \<and> (fst (Cache_get now app (detailsCache st)) = Some d \<longrightarrow>
         fst (getGameDetails remote now app st) = Inr d
       \<and> apiCalls (snd (getGameDetails remote now app st)) = apiCalls st)"
proof (intro conjI impI)
  assume a: "fst (Cache_get now app (detailsCache st)) = None \<and> getGameDetails_outcome remote app = Inl e"
  define st' where "st' = snd (getGameDetails remote now app st)"
  have st': "st' = st\<lparr>detailsCache := snd (Cache_get now app (detailsCache st)),
                       apiCalls := apiCalls st @ [GetGameDetails app]\<rparr>"
    using a by (simp add: st'_def getGameDetails_miss)
  have res: "fst (getGameDetails remote now app st) = Inl e"
    using a by (simp add: getGameDetails_miss)
  have miss: "fst (lru_get now app (cache (detailsCache st))) = None"
    using a by (simp add: Cache_get_fst)
  have store: "cache (detailsCache st')
      = (cache (detailsCache st))\<lparr>lru_entries := lru_without app (lru_entries (cache (detailsCache st)))\<rparr>"
    using lru_get_miss_entries [OF miss] by (simp add: st' Cache_get_cache)
  have again: "fst (Cache_get now2 app (detailsCache st')) = None" for now2
    by (simp add: Cache_get_fst store lru_get_without)
  have next_call: "fst (getGameDetails remote2 now2 app st') = getGameDetails_outcome remote2 app
      \<and> apiCalls (snd (getGameDetails remote2 now2 app st')) = apiCalls st' @ [GetGameDetails app]"
    for remote2 now2
    by (simp add: getGameDetails_miss [OF again] split: sum.splits)
  show "let st' = snd (getGameDetails remote now app st) in
         fst (getGameDetails remote now app st) = Inl e
       \<and> detailsCache st' = snd (Cache_get now app (detailsCache st))
       \<and> cache (detailsCache st')
           = (cache (detailsCache st))\<lparr>lru_entries := lru_without app (lru_entries (cache (detailsCache st)))\<rparr>
       \<and> apiCalls st' = apiCalls st @ [GetGameDetails app]
       \<and> (\<forall>remote2 now2.
             fst (getGameDetails remote2 now2 app st') = getGameDetails_outcome remote2 app
           \<and> apiCalls (snd (getGameDetails remote2 now2 app st')) = apiCalls st' @ [GetGameDetails app])"
    unfolding Let_def st'_def [symmetric]
    using res store next_call by (simp add: st')
next
  assume "fst (Cache_get now app (detailsCache st)) = Some d"
  then show "fst (getGameDetails remote now app st) = Inr d"
    by (simp add: getGameDetails_hit)
next
  assume "fst (Cache_get now app (detailsCache st)) = Some d"
  then show "apiCalls (snd (getGameDetails remote now app st)) = apiCalls st"
    by (simp add: getGameDetails_hit)
qed

lemmas eval_defs = sample_client_def sample_remote_def sample_details_def
  SteamClient_new_def Cache_new_def lru_new_def Cache_get_def Cache_set_def lru_get_def lru_set_def
  lru_without_def getGameDetails_def Let_def DEFAULT_cacheSize_def DEFAULT_cacheTTL_def

theorem getGameDetails_failure_not_cached_witness:
  "fst (getGameDetails (sample_remote [] (\<lambda>a. Inl (GameNotFoundError a))) 0 ''42'' sample_client)
      = Inl (GameNotFoundError ''42'')
   \<and> apiCalls (snd (getGameDetails (sample_remote [] (\<lambda>a. Inl (GameNotFoundError a))) 0 ''42''
        (snd (getGameDetails (sample_remote [] (\<lambda>a. Inl (GameNotFoundError a))) 0 ''42'' sample_client))))
      = [GetGameDetails ''42'', GetGameDetails ''42'']
   \<and> apiCalls (snd (getGameDetails (sample_remote [] (\<lambda>a. Inl (GameNotFoundError a))) 5 ''7''
        (snd (getGameDetails (sample_remote [] (\<lambda>a. Inr (sample_details a))) 0 ''7'' sample_client))))
      = [GetGameDetails ''7'']"
proof -
  let ?bad = "sample_remote [] (\<lambda>a. Inl (GameNotFoundError a))"
  let ?good = "sample_remote [] (\<lambda>a. Inr (sample_details a))"
  let ?hit = "snd (getGameDetails ?good 0 ''7'' sample_client)"
  have miss: "fst (Cache_get 0 ''42'' (detailsCache sample_client)) = None
      \<and> getGameDetails_outcome ?bad ''42'' = Inl (GameNotFoundError ''42'')"
    by (simp add: eval_defs)
  have hit: "fst (Cache_get 5 ''7'' (detailsCache ?hit)) = Some (sample_details ''7'')"
    by (simp add: eval_defs)
  have calls: "apiCalls sample_client = []" "apiCalls ?hit = [GetGameDetails ''7'']"
    by (simp_all add: eval_defs)
  from getGameDetails_failure_not_cached [of 0 "''42''" sample_client ?bad "GameNotFoundError ''42''" "sample_details ''42''"]
    getGameDetails_failure_not_cached [of 5 "''7''" ?hit ?bad "GameNotFoundError ''7''" "sample_details ''7''"]
    miss hit calls
  show ?thesis by (simp add: Let_def)
qed

section \<open>Properties of the search\<close>

lemma isAdultContent_total:
  "fst (isAdultContent remote now game st)
     = (case fst (getGameDetails remote now (appId game) st) of Inl e \<Rightarrow> False | Inr d \<Rightarrow> isAdult d)"
  by (cases "getGameDetails remote now (appId game) st")
     (simp add: isAdultContent_def split: sum.splits)

text \<open>
  C7. In \<open>searchGame\<close> with the adult filter on, when the details of the matched game
  cannot be fetched, whatever the error, the search returns the match: \<open>isAdultContent\<close>
  answers false there. \<open>isAdultContent\<close> always returns a truth value: false on every
  error of the details fetch, the detector's verdict otherwise.
\<close>

theorem searchGame_fails_open:
  assumes "findBestMatch search remote now title
             (case fuzzyThreshold options of None \<Rightarrow> DEFAULT_fuzzyThreshold | Some t \<Rightarrow> t) st
           = (Inr (Some m), st1)"
    and "includeAdult options \<noteq> Some True"
    and "fst (getGameDetails remote now (appId m) st1) = Inl e"
  shows "fst (searchGame search remote now title options st) = Inr (Some m)
    \<and> fst (isAdultContent remote now m st1) = False
    \<and> (\<forall>r t g s. fst (isAdultContent r t g s)
          = (case fst (getGameDetails r t (appId g) s) of Inl e \<Rightarrow> False | Inr d \<Rightarrow> isAdult d))"
proof -
  have adult: "fst (isAdultContent remote now m st1) = False"
    using assms(3) by (simp add: isAdultContent_total)
  have inc: "(case includeAdult options of None \<Rightarrow> DEFAULT_includeAdult | Some b \<Rightarrow> b) = False"
    using assms(2) by (cases "includeAdult options") (simp_all add: DEFAULT_includeAdult_def)
  have "fst (searchGame search remote now title options st) = Inr (Some m)"
    using assms(1) adult inc
    by (cases "isAdultContent remote now m st1")
       (simp add: searchGame_def isAdultContentFiltered_def Let_def)
  then show ?thesis using adult by (simp add: isAdultContent_total)
qed

theorem searchGame_fails_open_witness:
  "fst (searchGame (\<lambda>index q limit. [])
          (sample_remote [\<lparr>appid = 570, raw_name = ''Dota 2''\<rparr>] (\<lambda>a. Inl (RateLimitError 99)))
          0 ''dota 2'' \<lparr>fuzzyThreshold = None, includeAdult = None, bypassCache = None\<rparr> sample_client)
     = Inr (Some \<lparr>appId = ''570'', name = ''Dota 2'', matchScore = Some 1\<rparr>)"
proof -
  let ?remote = "sample_remote [\<lparr>appid = 570, raw_name = ''Dota 2''\<rparr>] (\<lambda>a. Inl (RateLimitError 99))"
  let ?search = "(\<lambda>index q limit. []) :: fuse_search"
  let ?opts = "\<lparr>fuzzyThreshold = None, includeAdult = None, bypassCache = None\<rparr>"
  let ?m = "\<lparr>appId = ''570'', name = ''Dota 2'', matchScore = Some 1\<rparr>"
  let ?r = "findBestMatch ?search ?remote 0 ''dota 2'' DEFAULT_fuzzyThreshold sample_client"
  have best: "fst ?r = Inr (Some ?m)"
    by code_simp
  have h1: "findBestMatch ?search ?remote 0 ''dota 2''
      (case fuzzyThreshold ?opts of None \<Rightarrow> DEFAULT_fuzzyThreshold | Some t \<Rightarrow> t) sample_client
      = (Inr (Some ?m), snd ?r)"
    using best by (simp add: prod_eq_iff)
  have h2: "includeAdult ?opts \<noteq> Some True" by simp
  have h3: "fst (getGameDetails ?remote 0 (appId ?m) (snd ?r)) = Inl (RateLimitError 99)"
    by code_simp
  from searchGame_fails_open [OF h1 h2 h3] show ?thesis by simp
qed

section \<open>Properties of the matcher\<close>

lemma blank_title_guarded:
  "blank title \<Longrightarrow>
     findBestMatch search remote now title threshold st = (Inr None, st)
   \<and> findMatches search remote now title limit threshold st = (Inr [], st)"
  by (simp add: findBestMatch_def findMatches_def)






text \<open>
  C2. \<open>findBestMatch\<close> and \<open>findMatches\<close> return no match for a blank title and leave
  the state as it is (lemma \<open>blank_title_guarded\<close>). \<open>getExactMatch\<close> has no such guard:
  called with the empty title on a new client, it reads the catalogue cache, fetches the
  catalogue, and returns the entry whose name normalizes to the empty string.
\<close>

theorem getExactMatch_empty_title_example:
  "fst (getExactMatch (sample_remote [\<lparr>appid = 7, raw_name = ''Remastered''\<rparr>] (\<lambda>a. Inl (GameNotFoundError a)))
          0 '''' sample_client)
     = Inr (Some \<lparr>appId = ''7'', name = ''Remastered'', matchScore = None\<rparr>)
   \<and> apiCalls (snd (getExactMatch (sample_remote [\<lparr>appid = 7, raw_name = ''Remastered''\<rparr>] (\<lambda>a. Inl (GameNotFoundError a)))
          0 '''' sample_client)) = [GetAppList]
   \<and> misses (appListCache (snd (getExactMatch (sample_remote [\<lparr>appid = 7, raw_name = ''Remastered''\<rparr>] (\<lambda>a. Inl (GameNotFoundError a)))
          0 '''' sample_client))) = 1
   \<and> apiCalls sample_client = [] \<and> misses (appListCache sample_client) = 0"
  by code_simp

lemma findMatches_keeps_index:
  assumes "fuse st = Some index" and "\<not> blank title"
  shows "findMatches search remote now title limit threshold (clearCache st)
     = (Inr (map scored (filter (within_threshold threshold) (search index (normalize title) limit))),
        clearCache st)"
  using assms by (simp add: findMatches_def ensureFuseInitialized_def clearCache_def Let_def)

text \<open>
  C1. The search index is built once and outlives the catalogue it was built from. After a
  fuzzy search over a catalogue with \<open>Dota 2\<close>, the cache is cleared (or the entry expires,
  a day later) and the remote catalogue is now \<open>Half-Life\<close> alone: the next fuzzy search
  still answers \<open>Dota 2\<close>, while the catalogue accessor gives the new catalogue.
\<close>

theorem stale_index_example:
  "fst (findMatches all_at_distance_0
          (sample_remote [\<lparr>appid = 70, raw_name = ''Half-Life''\<rparr>] (\<lambda>a. Inl (GameNotFoundError a)))
          1 ''dota'' 5 (3 / 10)
          (clearCache (snd (findMatches all_at_distance_0
             (sample_remote [\<lparr>appid = 570, raw_name = ''Dota 2''\<rparr>] (\<lambda>a. Inl (GameNotFoundError a)))
             0 ''dota'' 5 (3 / 10) sample_client))))
     = Inr [\<lparr>appId = ''570'', name = ''Dota 2'', matchScore = Some 1\<rparr>]
   \<and> fst (getAppList
          (sample_remote [\<lparr>appid = 70, raw_name = ''Half-Life''\<rparr>] (\<lambda>a. Inl (GameNotFoundError a))) 1
          (clearCache (snd (findMatches all_at_distance_0
             (sample_remote [\<lparr>appid = 570, raw_name = ''Dota 2''\<rparr>] (\<lambda>a. Inl (GameNotFoundError a)))
             0 ''dota'' 5 (3 / 10) sample_client))))
     = Inr [\<lparr>appId = ''70'', name = ''Half-Life'', matchScore = None\<rparr>]
   \<and> fst (findMatches all_at_distance_0
          (sample_remote [\<lparr>appid = 70, raw_name = ''Half-Life''\<rparr>] (\<lambda>a. Inl (GameNotFoundError a)))
          86400001 ''dota'' 5 (3 / 10)
          (snd (findMatches all_at_distance_0
             (sample_remote [\<lparr>appid = 570, raw_name = ''Dota 2''\<rparr>] (\<lambda>a. Inl (GameNotFoundError a)))
             0 ''dota'' 5 (3 / 10) sample_client)))
     = Inr [\<lparr>appId = ''570'', name = ''Dota 2'', matchScore = Some 1\<rparr>]
   \<and> fst (getAppList
          (sample_remote [\<lparr>appid = 70, raw_name = ''Half-Life''\<rparr>] (\<lambda>a. Inl (GameNotFoundError a))) 86400001
          (snd (findMatches all_at_distance_0
             (sample_remote [\<lparr>appid = 570, raw_name = ''Dota 2''\<rparr>] (\<lambda>a. Inl (GameNotFoundError a)))
             0 ''dota'' 5 (3 / 10) sample_client)))
     = Inr [\<lparr>appId = ''70'', name = ''Half-Life'', matchScore = None\<rparr>]"
  by code_simp

end
